theory Spec2Isabelle
  imports Main
begin

section \<open>JavaScript values\<close>

text \<open>
  The hook \<open>useSettings\<close> (src/app/lib/hooks/useSettings.tsx) and the component
  \<open>BaseChat\<close> (src/app/components/chat/BaseChat.tsx) read cookies, hand them to
  \<open>JSON.parse\<close> and spread the parsed objects. The values that travel through this code
  are the JSON values plus \<open>undefined\<close>. An object lists its own enumerable properties
  in the order \<open>Object.keys\<close> enumerates them, with distinct keys. Numbers only matter
  through their truthiness, so they are integers here.
\<close>

datatype js_value =
    JUndefined
  | JNull
  | JBool bool
  | JNum int
  | JStr string
  | JArr "js_value list"
  | JObj "(string \<times> js_value) list"

datatype js_error = TypeError | SyntaxError | FetchError

text \<open>The decimal name of an array or string index, as \<open>String(i)\<close> gives it.\<close>

fun digits :: "nat \<Rightarrow> string" where
  "digits n =
     (if n < 10 then [char_of (48 + n)]
      else digits (n div 10) @ [char_of (48 + n mod 10)])"

declare digits.simps [simp del]

text \<open>
  The own enumerable properties of a value: the fields of an object, the indexed elements
  of an array, the indexed characters of a string, none for the other primitives. This is
  what the spread \<open>{...v}\<close> copies (spreading \<open>null\<close> or \<open>undefined\<close> copies nothing and
  does not throw).
\<close>

fun own_props :: "js_value \<Rightarrow> (string \<times> js_value) list" where
  "own_props (JObj kvs) = kvs"
| "own_props (JArr xs) = zip (map digits [0..<length xs]) xs"
| "own_props (JStr s) = zip (map digits [0..<length s]) (map (\<lambda>c. JStr [c]) s)"
| "own_props JUndefined = []"
| "own_props JNull = []"
| "own_props (JBool b) = []"
| "own_props (JNum n) = []"

definition spread :: "js_value \<Rightarrow> (string \<rightharpoonup> js_value)" where
  "spread v = map_of (own_props v)"

text \<open>\<open>Object.keys(v)\<close> throws a TypeError on \<open>null\<close> and \<open>undefined\<close>.\<close>

fun object_keys :: "js_value \<Rightarrow> js_error + string list" where
  "object_keys JUndefined = Inl TypeError"
| "object_keys JNull = Inl TypeError"
| "object_keys v = Inr (map fst (own_props v))"

text \<open>
  The property read \<open>v[k]\<close> (or \<open>v.k\<close>): a TypeError on \<open>null\<close> and \<open>undefined\<close>,
  \<open>undefined\<close> for a property the value does not have. It is used for \<open>.enabled\<close>,
  \<open>.commit\<close> and for keys that \<open>Object.keys\<close> returned: own properties, or names that no
  prototype of a JSON value defines, so the own properties decide. The lookup in the
  registry, where any name can arrive, follows the prototype chain: see \<open>lookup\<close> below.
\<close>

fun get_prop :: "js_value \<Rightarrow> string \<Rightarrow> js_error + js_value" where
  "get_prop JUndefined k = Inl TypeError"
| "get_prop JNull k = Inl TypeError"
| "get_prop v k = Inr (case map_of (own_props v) k of None \<Rightarrow> JUndefined | Some x \<Rightarrow> x)"

text \<open>The nullish coalescing \<open>a ?? b\<close>.\<close>

fun nullish :: "js_value \<Rightarrow> js_value \<Rightarrow> js_value" where
  "nullish JUndefined b = b"
| "nullish JNull b = b"
| "nullish a b = a"

text \<open>Truthiness, as \<open>filter\<close> and \<open>if\<close> test it.\<close>

fun truthy :: "js_value \<Rightarrow> bool" where
  "truthy JUndefined = False"
| "truthy JNull = False"
| "truthy (JBool b) = b"
| "truthy (JNum n) = (n \<noteq> 0)"
| "truthy (JStr s) = (s \<noteq> [])"
| "truthy (JArr xs) = True"
| "truthy (JObj kvs) = True"

text \<open>\<open>typeof v === 'object' && v !== null\<close>: objects and arrays.\<close>

fun is_object :: "js_value \<Rightarrow> bool" where
  "is_object (JObj kvs) = True"
| "is_object (JArr xs) = True"
| "is_object v = False"

text \<open>\<open>String(b)\<close> for a boolean.\<close>

definition String_bool :: "bool \<Rightarrow> string" where
  "String_bool b = (if b then ''true'' else ''false'')"

section \<open>The provider registry and the hook's state\<close>

text \<open>
  \<open>ProviderInfo\<close> and \<open>IProviderSetting\<close> are declared in \<open>~/types/model\<close>. A
  provider's static part is its \<open>name\<close> and the rest of its metadata (the type
  parameter). A registry entry is that static part together with \<open>settings\<close>; an entry
  built by spreading \<open>undefined\<close> has \<open>settings\<close> and nothing else, so its static part
  is absent. Settings are an object of arbitrary fields, among them \<open>enabled\<close>.
\<close>

record 'm provider_info =
  name :: string
  static :: 'm

record 'm provider_config =
  info :: "'m provider_info option"
  settings :: "string \<rightharpoonup> js_value"

text \<open>
  The registry is the value of \<open>providersStore\<close>: provider name to entry, in the
  enumeration order of \<open>Object.entries\<close>.
\<close>

type_synonym 'm registry = "(string \<times> 'm provider_config) list"

text \<open>
  The registry is a plain object, so \<open>providers[provider]\<close> also finds what
  \<open>Object.prototype\<close> hands down: for these names the read gives a function (for
  \<open>__proto__\<close> the prototype object itself), a value that is neither \<open>null\<close> nor
  \<open>undefined\<close>, has no property \<open>settings\<close> and no enumerable property of its own.
  The names are those of the standard (with its Annex B) in an environment that has not
  extended \<open>Object.prototype\<close>.
\<close>

definition Object_prototype :: "string list" where
  "Object_prototype =
     [''constructor'', ''__defineGetter__'', ''__defineSetter__'', ''hasOwnProperty'',
      ''__lookupGetter__'', ''__lookupSetter__'', ''isPrototypeOf'', ''propertyIsEnumerable'',
      ''toString'', ''valueOf'', ''__proto__'', ''toLocaleString'']"

datatype 'v member = Own 'v | Inherited | Missing

definition lookup :: "(string \<times> 'v) list \<Rightarrow> string \<Rightarrow> 'v member" where
  "lookup obj k =
     (case map_of obj k of
        Some v \<Rightarrow> Own v
      | None \<Rightarrow> if k \<in> set Object_prototype then Inherited else Missing)"

text \<open>
  Enumeration order of an object's keys: the array indices (canonical decimal strings below
  \<open>2^32 - 1\<close>) first, ascending, then the other keys in the order of their creation.
\<close>

definition is_digit :: "char \<Rightarrow> bool" where
  "is_digit c = (48 \<le> (of_char c :: nat) \<and> (of_char c :: nat) \<le> 57)"

definition decimal :: "string \<Rightarrow> nat" where
  "decimal k = foldl (\<lambda>n c. 10 * n + (of_char c - 48)) 0 k"

definition array_index :: "string \<Rightarrow> nat option" where
  "array_index k =
     (if k \<noteq> [] \<and> list_all is_digit k \<and> (k = ''0'' \<or> take 1 k \<noteq> ''0'')
         \<and> decimal k < 4294967295
      then Some (decimal k) else None)"

text \<open>
  \<open>providersStore.setKey(key, value)\<close> sets the store to \<open>{...value, [key]: value}\<close>:
  the value of a key that is there is replaced in place; a new key goes to its place in the
  enumeration order, behind the other keys unless it is an array index.
\<close>

fun replace_key :: "string \<Rightarrow> 'v \<Rightarrow> (string \<times> 'v) list \<Rightarrow> (string \<times> 'v) list" where
  "replace_key k v [] = []"
| "replace_key k v ((k', v') # kvs) =
     (if k' = k then (k, v) # kvs else (k', v') # replace_key k v kvs)"

fun insert_key :: "string \<Rightarrow> 'v \<Rightarrow> (string \<times> 'v) list \<Rightarrow> (string \<times> 'v) list" where
  "insert_key k v [] = [(k, v)]"
| "insert_key k v ((k', v') # kvs) =
     (case array_index k of
        None \<Rightarrow> (k', v') # insert_key k v kvs
      | Some n \<Rightarrow>
          (case array_index k' of
             None \<Rightarrow> (k, v) # (k', v') # kvs
           | Some n' \<Rightarrow>
               if n < n' then (k, v) # (k', v') # kvs else (k', v') # insert_key k v kvs))"

definition setKey :: "string \<Rightarrow> 'v \<Rightarrow> (string \<times> 'v) list \<Rightarrow> (string \<times> 'v) list" where
  "setKey k v kvs =
     (case map_of kvs k of
        None \<Rightarrow> insert_key k v kvs
      | Some old \<Rightarrow> replace_key k v kvs)"

datatype console_entry =
    ConsoleError string js_error
  | ConsoleWarn string "js_error option"

record 'm state =
  providersStore :: "'m registry"
  isDebugMode :: bool
  isEventLogsEnabled :: bool
  isLocalModelsEnabled :: bool
  promptStore :: string
  latestBranchStore :: bool
  cookies :: "string \<rightharpoonup> string"
  console :: "console_entry list"
  logSystem :: "string list"

section \<open>Hydration of the providers (useSettings.tsx, lines 56-74)\<close>

text \<open>
  The body of the \<open>forEach\<close> callback for one provider name. \<open>providers\<close> is the
  registry value the hook rendered with, \<open>parsedProviders\<close> the parsed cookie. The
  new entry spreads the current entry (\<open>undefined\<close> and an inherited member give
  nothing to copy) and replaces
  \<open>settings\<close> by the persisted record with \<open>enabled\<close> defaulted. Reading
  \<open>.enabled\<close> of a \<open>null\<close> record throws.
\<close>

definition hydrate_provider ::
  "'m registry \<Rightarrow> js_value \<Rightarrow> string \<Rightarrow> js_error + 'm provider_config" where
  "hydrate_provider providers parsedProviders provider =
     (let currentProvider = lookup providers provider in
      case get_prop parsedProviders provider of
        Inl e \<Rightarrow> Inl e
      | Inr persisted \<Rightarrow>
          (case get_prop persisted ''enabled'' of
             Inl e \<Rightarrow> Inl e
           | Inr enabled \<Rightarrow>
               Inr \<lparr> info = (case currentProvider of
                              Own p \<Rightarrow> info p | Inherited \<Rightarrow> None | Missing \<Rightarrow> None),
                     settings = (spread persisted)(''enabled'' \<mapsto> nullish enabled (JBool True)) \<rparr>))"

text \<open>
  The \<open>forEach\<close> loop: a throw leaves the loop, keeping the keys already set in the
  store.
\<close>

fun forEach_provider ::
  "'m registry \<Rightarrow> js_value \<Rightarrow> string list \<Rightarrow> 'm registry \<Rightarrow> 'm registry \<times> js_error option" where
  "forEach_provider providers parsedProviders [] store = (store, None)"
| "forEach_provider providers parsedProviders (provider # rest) store =
     (case hydrate_provider providers parsedProviders provider of
        Inl e \<Rightarrow> (store, Some e)
      | Inr entry \<Rightarrow>
          forEach_provider providers parsedProviders rest (setKey provider entry store))"

text \<open>
  The \<open>try\<close> block: \<open>JSON.parse\<close> (a parameter: \<open>None\<close> is its SyntaxError), then
  \<open>Object.keys\<close>, then the loop.
\<close>

definition try_providers ::
  "(string \<Rightarrow> js_value option) \<Rightarrow> 'm registry \<Rightarrow> string \<Rightarrow> 'm registry \<Rightarrow>
     'm registry \<times> js_error option" where
  "try_providers json_parse providers savedProviders store =
     (case json_parse savedProviders of
        None \<Rightarrow> (store, Some SyntaxError)
      | Some parsedProviders \<Rightarrow>
          (case object_keys parsedProviders of
             Inl e \<Rightarrow> (store, Some e)
           | Inr keys \<Rightarrow> forEach_provider providers parsedProviders keys store))"

text \<open>
  The whole step: skipped when the cookie is absent or empty; the \<open>catch\<close> logs with
  \<open>console.error\<close> and goes on.
\<close>

definition load_providers ::
  "(string \<Rightarrow> js_value option) \<Rightarrow> 'm registry \<Rightarrow> 'm state \<Rightarrow> 'm state" where
  "load_providers json_parse providers st =
     (case cookies st ''providers'' of
        None \<Rightarrow> st
      | Some savedProviders \<Rightarrow>
          if savedProviders = [] then st
          else
            (case try_providers json_parse providers savedProviders (providersStore st) of
               (store, None) \<Rightarrow> st\<lparr>providersStore := store\<rparr>
             | (store, Some e) \<Rightarrow>
                 st\<lparr>providersStore := store,
                    console := console st @
                      [ConsoleError ''Failed to parse providers from cookies:'' e]\<rparr>))"

section \<open>The version freshness check (useSettings.tsx, lines 34-52)\<close>

text \<open>
  What the network gives back is an input of the model: \<open>fetch\<close> rejects, or resolves
  with a response that has a status flag \<open>ok\<close> and a body; \<open>response.json()\<close> rejects
  on a body that is not JSON (\<open>None\<close>) or resolves with the parsed value.
\<close>

datatype fetch_outcome =
    Rejected
  | Response bool "js_value option"

text \<open>
  The \<open>try\<close> block. \<open>commit.commit === stableData.commit\<close> is a strict equality with
  the build's commit string: it holds for a string of the same characters only.
\<close>

definition try_stable :: "string \<Rightarrow> fetch_outcome \<Rightarrow> js_error + bool \<times> console_entry list" where
  "try_stable commit outcome =
     (case outcome of
        Rejected \<Rightarrow> Inl FetchError
      | Response ok body \<Rightarrow>
          if \<not> ok then Inr (False, [ConsoleWarn ''Failed to fetch stable commit info'' None])
          else
            (case body of
               None \<Rightarrow> Inl SyntaxError
             | Some stableData \<Rightarrow>
                 (case get_prop stableData ''commit'' of
                    Inl e \<Rightarrow> Inl e
                  | Inr c \<Rightarrow> Inr (JStr commit = c, []))))"

text \<open>The function with its \<open>catch\<close>: the result and what it wrote to the console.\<close>

definition checkIsStableVersion :: "string \<Rightarrow> fetch_outcome \<Rightarrow> bool \<times> console_entry list" where
  "checkIsStableVersion commit outcome =
     (case try_stable commit outcome of
        Inl e \<Rightarrow> (False, [ConsoleWarn ''Error checking stable version:'' (Some e)])
      | Inr r \<Rightarrow> r)"

section \<open>The mount effect (useSettings.tsx, lines 55-122)\<close>

text \<open>\<open>if (saved) store.set(saved === 'true')\<close>: an absent or empty cookie is skipped.\<close>

definition load_flag :: "string option \<Rightarrow> bool \<Rightarrow> bool" where
  "load_flag saved current =
     (case saved of
        None \<Rightarrow> current
      | Some s \<Rightarrow> if s = [] then current else (s = ''true''))"

definition load_prompt :: "string option \<Rightarrow> string \<Rightarrow> string" where
  "load_prompt saved current =
     (case saved of
        None \<Rightarrow> current
      | Some s \<Rightarrow> if s = [] then current else s)"

text \<open>
  The synchronous part of the effect. The second component tells whether
  \<open>checkIsStableVersion()\<close> was called, that is, whether a request went out.
\<close>

definition mount_effect ::
  "(string \<Rightarrow> js_value option) \<Rightarrow> string \<Rightarrow> 'm registry \<Rightarrow> 'm state \<Rightarrow> 'm state \<times> bool" where
  "mount_effect json_parse commit providers st0 =
     (let st1 = load_providers json_parse providers st0;
          st2 = st1\<lparr>isDebugMode := load_flag (cookies st1 ''isDebugEnabled'') (isDebugMode st1)\<rparr>;
          st3 = st2\<lparr>isEventLogsEnabled :=
                  load_flag (cookies st2 ''isEventLogsEnabled'') (isEventLogsEnabled st2)\<rparr>;
          st4 = st3\<lparr>isLocalModelsEnabled :=
                  load_flag (cookies st3 ''isLocalModelsEnabled'') (isLocalModelsEnabled st3)\<rparr>;
          st5 = st4\<lparr>promptStore := load_prompt (cookies st4 ''promptId'') (promptStore st4)\<rparr>;
          savedLatestBranch = cookies st5 ''isLatestBranch'';
          checkCommit = (case cookies st5 ''commitHash'' of None \<Rightarrow> commit | Some h \<Rightarrow> h)
      in if savedLatestBranch = None \<or> checkCommit \<noteq> commit then (st5, True)
         else (st5\<lparr>latestBranchStore := (savedLatestBranch = Some ''true'')\<rparr>, False))"

text \<open>The continuation \<open>.then((isStable) => ...)\<close> of the check.\<close>

definition then_isStable :: "string \<Rightarrow> bool \<Rightarrow> 'm state \<Rightarrow> 'm state" where
  "then_isStable commit isStable st =
     (let shouldUseLatest = \<not> isStable in
      st\<lparr>latestBranchStore := shouldUseLatest,
         cookies := (cookies st)(''isLatestBranch'' \<mapsto> String_bool shouldUseLatest,
                                 ''commitHash'' \<mapsto> commit)\<rparr>)"

text \<open>
  The effect together with its continuation, run on the state the effect left, for a
  given outcome of the request. The second component tells whether a request went out.
\<close>

definition mount ::
  "(string \<Rightarrow> js_value option) \<Rightarrow> string \<Rightarrow> fetch_outcome \<Rightarrow> 'm registry \<Rightarrow> 'm state \<Rightarrow>
     'm state \<times> bool" where
  "mount json_parse commit outcome providers st0 =
     (case mount_effect json_parse commit providers st0 of
        (st, False) \<Rightarrow> (st, False)
      | (st, True) \<Rightarrow>
          (case checkIsStableVersion commit outcome of
             (isStable, warnings) \<Rightarrow>
               (then_isStable commit isStable (st\<lparr>console := console st @ warnings\<rparr>), True)))"

section \<open>Active providers (useSettings.tsx, lines 134-144)\<close>

text \<open>
  \<open>LOCAL_PROVIDERS\<close> is a constant of \<open>~/lib/stores/settings\<close>, a parameter here.
  \<open>includes(p.name)\<close> is false for an entry without a name.
\<close>

definition is_local :: "string list \<Rightarrow> 'm provider_config \<Rightarrow> bool" where
  "is_local LOCAL_PROVIDERS p =
     (case info p of None \<Rightarrow> False | Some i \<Rightarrow> name i \<in> set LOCAL_PROVIDERS)"

definition enabled_truthy :: "'m provider_config \<Rightarrow> bool" where
  "enabled_truthy p =
     truthy (case settings p ''enabled'' of None \<Rightarrow> JUndefined | Some v \<Rightarrow> v)"

definition activeProviders :: "string list \<Rightarrow> 'm registry \<Rightarrow> bool \<Rightarrow> 'm provider_config list" where
  "activeProviders LOCAL_PROVIDERS providers isLocalModel =
     (let active = map snd (filter (\<lambda>(_, provider). enabled_truthy provider) providers)
      in if \<not> isLocalModel then filter (\<lambda>p. \<not> is_local LOCAL_PROVIDERS p) active
         else active)"

section \<open>The setters (useSettings.tsx, lines 147-181)\<close>

text \<open>
  \<open>updateProviderSettings\<close> reads the entry from the registry value the hook rendered
  with and writes the store. Reading \<open>.settings\<close> of \<open>undefined\<close> throws. For a name
  that \<open>Object.prototype\<close> hands down nothing throws: \<open>settings\<close> is \<open>undefined\<close>,
  both spreads of it and of the member copy nothing, and an entry with the given settings
  alone is stored.
\<close>

definition updateProviderSettings ::
  "'m registry \<Rightarrow> string \<Rightarrow> (string \<rightharpoonup> js_value) \<Rightarrow> 'm state \<Rightarrow> js_error + 'm state" where
  "updateProviderSettings providers provider config st =
     (case lookup providers provider of
        Missing \<Rightarrow> Inl TypeError
      | Inherited \<Rightarrow>
          Inr (st\<lparr>providersStore :=
                 setKey provider \<lparr> info = None, settings = Map.empty ++ config \<rparr>
                   (providersStore st)\<rparr>)
      | Own p \<Rightarrow>
          Inr (st\<lparr>providersStore :=
                 setKey provider (p\<lparr>settings := settings p ++ config\<rparr>) (providersStore st)\<rparr>))"

definition enabled_word :: "bool \<Rightarrow> string" where
  "enabled_word enabled = (if enabled then ''enabled'' else ''disabled'')"

definition enableDebugMode :: "bool \<Rightarrow> 'm state \<Rightarrow> 'm state" where
  "enableDebugMode enabled st =
     st\<lparr>isDebugMode := enabled,
        logSystem := logSystem st @ [''Debug mode '' @ enabled_word enabled],
        cookies := (cookies st)(''isDebugEnabled'' \<mapsto> String_bool enabled)\<rparr>"

definition enableEventLogs :: "bool \<Rightarrow> 'm state \<Rightarrow> 'm state" where
  "enableEventLogs enabled st =
     st\<lparr>isEventLogsEnabled := enabled,
        logSystem := logSystem st @ [''Event logs '' @ enabled_word enabled],
        cookies := (cookies st)(''isEventLogsEnabled'' \<mapsto> String_bool enabled)\<rparr>"

definition enableLocalModels :: "bool \<Rightarrow> 'm state \<Rightarrow> 'm state" where
  "enableLocalModels enabled st =
     st\<lparr>isLocalModelsEnabled := enabled,
        logSystem := logSystem st @ [''Local models '' @ enabled_word enabled],
        cookies := (cookies st)(''isLocalModelsEnabled'' \<mapsto> String_bool enabled)\<rparr>"

definition setPromptId :: "string \<Rightarrow> 'm state \<Rightarrow> 'm state" where
  "setPromptId promptId st =
     st\<lparr>promptStore := promptId, cookies := (cookies st)(''promptId'' \<mapsto> promptId)\<rparr>"

definition enableLatestBranch :: "bool \<Rightarrow> 'm state \<Rightarrow> 'm state" where
  "enableLatestBranch enabled st =
     st\<lparr>latestBranchStore := enabled,
        logSystem := logSystem st @ [''Main branch updates '' @ enabled_word enabled],
        cookies := (cookies st)(''isLatestBranch'' \<mapsto> String_bool enabled)\<rparr>"

section \<open>Cookie loading in BaseChat (BaseChat.tsx, lines 96-160)\<close>

record chat_state =
  apiKeys :: js_value
  chat_cookies :: "string \<rightharpoonup> string"
  chat_console :: "console_entry list"


text \<open>The first \<open>try\<close> of the mount effect: load the API keys; the \<open>catch\<close> removes the cookie.\<close>

definition load_apiKeys :: "(string \<Rightarrow> js_value option) \<Rightarrow> chat_state \<Rightarrow> chat_state" where
  "load_apiKeys json_parse st =
     (case chat_cookies st ''apiKeys'' of
        None \<Rightarrow> st
      | Some storedApiKeys \<Rightarrow>
          if storedApiKeys = [] then st
          else
            (case json_parse storedApiKeys of
               None \<Rightarrow>
                 st\<lparr>chat_cookies := (chat_cookies st)(''apiKeys'' := None),
                    chat_console := chat_console st @
                      [ConsoleError ''Error loading API keys from cookies:'' SyntaxError]\<rparr>
             | Some parsedKeys \<Rightarrow>
                 if is_object parsedKeys then st\<lparr>apiKeys := parsedKeys\<rparr> else st))"

text \<open>
  The second \<open>try\<close>: the provider settings handed to \<open>initializeModelList\<close>
  (\<open>JUndefined\<close> unless the cookie parses to an object); the \<open>catch\<close> removes the cookie.
\<close>

definition load_providerSettings ::
  "(string \<Rightarrow> js_value option) \<Rightarrow> chat_state \<Rightarrow> js_value \<times> chat_state" where
  "load_providerSettings json_parse st =
     (case chat_cookies st ''providers'' of
        None \<Rightarrow> (JUndefined, st)
      | Some savedProviderSettings \<Rightarrow>
          if savedProviderSettings = [] then (JUndefined, st)
          else
            (case json_parse savedProviderSettings of
               None \<Rightarrow>
                 (JUndefined,
                  st\<lparr>chat_cookies := (chat_cookies st)(''providers'' := None),
                     chat_console := chat_console st @
                       [ConsoleError ''Error loading Provider Settings from cookies:'' SyntaxError]\<rparr>)
             | Some parsedProviderSettings \<Rightarrow>
                 if is_object parsedProviderSettings then (parsedProviderSettings, st)
                 else (JUndefined, st)))"

text \<open>Both steps, in the order of the effect.\<close>

definition chat_mount :: "(string \<Rightarrow> js_value option) \<Rightarrow> chat_state \<Rightarrow> js_value \<times> chat_state" where
  "chat_mount json_parse st = load_providerSettings json_parse (load_apiKeys json_parse st)"

section \<open>Example inputs\<close>

text \<open>
  A state, a registry of three providers (Ollama among the local ones), cookie texts with
  what \<open>JSON.parse\<close> makes of them, and a response of the release server.
\<close>

definition example_state :: "unit registry \<Rightarrow> (string \<rightharpoonup> string) \<Rightarrow> unit state" where
  "example_state reg jar =
     \<lparr> providersStore = reg, isDebugMode = False, isEventLogsEnabled = False,
       isLocalModelsEnabled = False, promptStore = ''default'', latestBranchStore = False,
       cookies = jar, console = [], logSystem = [] \<rparr>"

definition openai_entry :: "unit provider_config" where
  "openai_entry =
     \<lparr> info = Some \<lparr> name = ''OpenAI'', static = () \<rparr>,
       settings = [''enabled'' \<mapsto> JBool True, ''baseUrl'' \<mapsto> JStr ''http://localhost:8080''] \<rparr>"

definition mistral_entry :: "unit provider_config" where
  "mistral_entry =
     \<lparr> info = Some \<lparr> name = ''Mistral'', static = () \<rparr>,
       settings = [''enabled'' \<mapsto> JBool False] \<rparr>"

definition ollama_entry :: "unit provider_config" where
  "ollama_entry =
     \<lparr> info = Some \<lparr> name = ''Ollama'', static = () \<rparr>,
       settings = [''enabled'' \<mapsto> JBool True] \<rparr>"

definition example_registry :: "unit registry" where
  "example_registry =
     [(''OpenAI'', openai_entry), (''Mistral'', mistral_entry), (''Ollama'', ollama_entry)]"

definition example_local :: "string list" where
  "example_local = [''OpenAILike'', ''LMStudio'', ''Ollama'']"

definition cookie_openai :: string where
  \<open>cookie_openai = ''{"OpenAI":{"enabled":false}}''\<close>

definition cookie_mistral :: string where
  \<open>cookie_mistral = ''{"Mistral":{"apiKey":"x"}}''\<close>

definition cookie_ghost :: string where
  \<open>cookie_ghost = ''{"Ghost":{"enabled":true}}''\<close>

definition cookie_broken :: string where
  \<open>cookie_broken = ''{"OpenAI":''\<close>

definition example_parse :: "string \<Rightarrow> js_value option" where
  "example_parse s =
     (if s = cookie_openai then Some (JObj [(''OpenAI'', JObj [(''enabled'', JBool False)])])
      else if s = cookie_mistral then Some (JObj [(''Mistral'', JObj [(''apiKey'', JStr ''x'')])])
      else if s = cookie_ghost then Some (JObj [(''Ghost'', JObj [(''enabled'', JBool True)])])
      else None)"

definition stable_response :: "string \<Rightarrow> fetch_outcome" where
  "stable_response c = Response True (Some (JObj [(''commit'', JStr c), (''version'', JStr ''0.0.3'')]))"


section \<open>Auxiliary facts\<close>

lemma map_of_replace_key:
  "map_of kvs k \<noteq> None \<Longrightarrow> map_of (replace_key k v kvs) = (map_of kvs)(k \<mapsto> v)"
  by (induction kvs) (auto simp: fun_eq_iff)

lemma map_of_insert_key:
  "map_of kvs k = None \<Longrightarrow> map_of (insert_key k v kvs) = (map_of kvs)(k \<mapsto> v)"
  by (induction kvs) (auto simp: fun_eq_iff split: option.splits if_splits)

lemma map_of_setKey: "map_of (setKey k v kvs) = (map_of kvs)(k \<mapsto> v)"
  by (simp add: setKey_def map_of_replace_key map_of_insert_key split: option.splits)

lemma keys_replace_key: "map fst (replace_key k v kvs) = map fst kvs"
  by (induction kvs) auto

lemma keys_setKey:
  "map_of kvs k = Some old \<Longrightarrow> map fst (setKey k v kvs) = map fst kvs"
  by (simp add: setKey_def keys_replace_key)

lemma keys_insert_key:
  "array_index k = None \<Longrightarrow> map fst (insert_key k v kvs) = map fst kvs @ [k]"
  by (induction kvs) auto

lemma forEach_provider_ok:
  assumes "\<forall>k \<in> set ks. \<exists>e. hydrate_provider providers parsed k = Inr e"
  shows "snd (forEach_provider providers parsed ks store) = None \<and>
         map_of (fst (forEach_provider providers parsed ks store)) =
           (\<lambda>k. if k \<in> set ks
                then (case hydrate_provider providers parsed k of Inl e \<Rightarrow> None | Inr e \<Rightarrow> Some e)
                else map_of store k)"
  using assms
proof (induction ks arbitrary: store)
  case Nil
  then show ?case by simp
next
  case (Cons k ks)
  then obtain e where e: "hydrate_provider providers parsed k = Inr e" by auto
  from Cons.prems have "\<forall>k \<in> set ks. \<exists>e. hydrate_provider providers parsed k = Inr e" by simp
  from Cons.IH [OF this, of "setKey k e store"] e show ?case
    by (auto simp: map_of_setKey fun_eq_iff)
qed

lemma cookies_load_providers [simp]: "cookies (load_providers jp providers st) = cookies st"
  by (simp add: load_providers_def split: option.splits prod.splits)

lemma stores_load_providers [simp]:
  "isDebugMode (load_providers jp providers st) = isDebugMode st"
  "isEventLogsEnabled (load_providers jp providers st) = isEventLogsEnabled st"
  "isLocalModelsEnabled (load_providers jp providers st) = isLocalModelsEnabled st"
  "latestBranchStore (load_providers jp providers st) = latestBranchStore st"
  by (simp_all add: load_providers_def split: option.splits prod.splits)


lemma snd_mount_effect:
  "snd (mount_effect jp commit providers st) \<longleftrightarrow>
     (cookies st ''isLatestBranch'' = None \<or> (\<exists>h. cookies st ''commitHash'' = Some h \<and> h \<noteq> commit))"
  by (auto simp add: mount_effect_def Let_def split: option.splits)

lemma mount_no_request:
  "\<not> snd (mount_effect json_parse commit providers st) \<Longrightarrow>
   mount json_parse commit outcome providers st =
     (fst (mount_effect json_parse commit providers st), False)"
  by (cases "mount_effect json_parse commit providers st") (simp add: mount_def)

lemma hydrate_provider_obj:
  assumes "map_of kvs k = Some r" "r \<noteq> JNull" "r \<noteq> JUndefined"
  shows "hydrate_provider providers (JObj kvs) k =
           Inr \<lparr> info = (case lookup providers k of
                           Own p \<Rightarrow> info p | Inherited \<Rightarrow> None | Missing \<Rightarrow> None),
                 settings = (spread r)(''enabled'' \<mapsto>
                    nullish (case map_of (own_props r) ''enabled'' of None \<Rightarrow> JUndefined | Some x \<Rightarrow> x)
                      (JBool True)) \<rparr>"
  using assms by (cases r) (simp_all add: hydrate_provider_def)

lemma load_providers_obj:
  assumes c: "cookies st ''providers'' = Some c" "c \<noteq> []"
    and p: "json_parse c = Some (JObj kvs)"
    and nn: "\<forall>(k, r) \<in> set kvs. r \<noteq> JNull \<and> r \<noteq> JUndefined"
  shows "console (load_providers json_parse providers st) = console st"
    and "map_of (providersStore (load_providers json_parse providers st)) =
           (\<lambda>k. if k \<in> fst ` set kvs
                then (case hydrate_provider providers (JObj kvs) k of Inl e \<Rightarrow> None | Inr e \<Rightarrow> Some e)
                else map_of (providersStore st) k)"
proof -
  have ok: "\<forall>k \<in> set (map fst kvs). \<exists>e. hydrate_provider providers (JObj kvs) k = Inr e"
  proof
    fix k assume "k \<in> set (map fst kvs)"
    then obtain r where r: "map_of kvs k = Some r"
      by (metis map_of_eq_None_iff not_Some_eq set_map)
    then have "(k, r) \<in> set kvs" by (rule map_of_SomeD)
    with nn have "r \<noteq> JNull" "r \<noteq> JUndefined" by auto
    with r show "\<exists>e. hydrate_provider providers (JObj kvs) k = Inr e"
      by (simp add: hydrate_provider_obj)
  qed
  note fe = forEach_provider_ok [OF ok, of "providersStore st"]
  obtain store err where se:
    "forEach_provider providers (JObj kvs) (map fst kvs) (providersStore st) = (store, err)"
    by (cases "forEach_provider providers (JObj kvs) (map fst kvs) (providersStore st)")
  with fe have err: "err = None" and store: "map_of store =
      (\<lambda>k. if k \<in> set (map fst kvs)
           then (case hydrate_provider providers (JObj kvs) k of Inl e \<Rightarrow> None | Inr e \<Rightarrow> Some e)
           else map_of (providersStore st) k)"
    by simp_all
  have lp: "load_providers json_parse providers st = st\<lparr>providersStore := store\<rparr>"
    using c p se err by (simp add: load_providers_def try_providers_def)
  show "console (load_providers json_parse providers st) = console st"
    by (simp add: lp)
  show "map_of (providersStore (load_providers json_parse providers st)) =
           (\<lambda>k. if k \<in> fst ` set kvs
                then (case hydrate_provider providers (JObj kvs) k of Inl e \<Rightarrow> None | Inr e \<Rightarrow> Some e)
                else map_of (providersStore st) k)"
    using store by (simp add: lp)
qed

lemma load_providers_record:
  assumes "cookies st ''providers'' = Some c" "c \<noteq> []"
    and "json_parse c = Some (JObj kvs)"
    and "\<forall>(k, r) \<in> set kvs. r \<noteq> JNull \<and> r \<noteq> JUndefined"
    and r: "map_of kvs provider = Some persisted"
  shows "map_of (providersStore (load_providers json_parse providers st)) provider =
           Some \<lparr> info = (case lookup providers provider of
                           Own p \<Rightarrow> info p | Inherited \<Rightarrow> None | Missing \<Rightarrow> None),
                  settings = (spread persisted)(''enabled'' \<mapsto>
                    nullish (case spread persisted ''enabled'' of None \<Rightarrow> JUndefined | Some x \<Rightarrow> x)
                      (JBool True)) \<rparr>"
proof -
  from r have k: "provider \<in> fst ` set kvs"
    by (metis map_of_eq_None_iff option.distinct(1))
  from r have "(provider, persisted) \<in> set kvs" by (rule map_of_SomeD)
  with assms(4) have "persisted \<noteq> JNull" "persisted \<noteq> JUndefined" by auto
  with r have "hydrate_provider providers (JObj kvs) provider =
           Inr \<lparr> info = (case lookup providers provider of
                           Own p \<Rightarrow> info p | Inherited \<Rightarrow> None | Missing \<Rightarrow> None),
                  settings = (spread persisted)(''enabled'' \<mapsto>
                    nullish (case spread persisted ''enabled'' of None \<Rightarrow> JUndefined | Some x \<Rightarrow> x)
                      (JBool True)) \<rparr>"
    by (simp add: hydrate_provider_obj spread_def)
  with k show ?thesis
    using load_providers_obj(2) [where json_parse = json_parse and providers = providers and st = st
        and c = c and kvs = kvs] assms(1-4)
    by simp
qed

lemma example_parse_simps:
  "example_parse cookie_openai = Some (JObj [(''OpenAI'', JObj [(''enabled'', JBool False)])])"
  "example_parse cookie_mistral = Some (JObj [(''Mistral'', JObj [(''apiKey'', JStr ''x'')])])"
  "example_parse cookie_ghost = Some (JObj [(''Ghost'', JObj [(''enabled'', JBool True)])])"
  "example_parse cookie_broken = None"
  "cookie_openai \<noteq> []" "cookie_mistral \<noteq> []" "cookie_ghost \<noteq> []" "cookie_broken \<noteq> []"
  by (simp_all add: example_parse_def cookie_openai_def cookie_mistral_def cookie_ghost_def
      cookie_broken_def)


lemma lookup_own: "map_of obj k = Some v \<Longrightarrow> lookup obj k = Own v"
  by (simp add: lookup_def)

lemma array_index_Ghost: "array_index ''Ghost'' = None"
  by (simp add: array_index_def is_digit_def)

section \<open>Hydration replaces the settings\<close>

text \<open>
  Claim C1, amended. For a provider name that is in the persisted payload (an object whose
  records are not \<open>null\<close>) and in the registry, hydration keeps the entry's static part
  and replaces its settings by the persisted record, with \<open>enabled\<close> set to the
  persisted value or, when that is omitted or \<open>null\<close>, to \<open>true\<close>. The settings the
  entry had before are not merged in.
\<close>

theorem hydration_replaces_settings:
  assumes "cookies st ''providers'' = Some c" "c \<noteq> []"
    and "json_parse c = Some (JObj kvs)"
    and "\<forall>(k, r) \<in> set kvs. r \<noteq> JNull \<and> r \<noteq> JUndefined"
    and "map_of kvs provider = Some persisted"
    and "map_of (providersStore st) provider = Some current"
  shows "map_of (providersStore (load_providers json_parse (providersStore st) st)) provider =
           Some (current\<lparr>settings := (spread persisted)(''enabled'' \<mapsto>
              nullish (case spread persisted ''enabled'' of None \<Rightarrow> JUndefined | Some x \<Rightarrow> x)
                (JBool True))\<rparr>)"
  using load_providers_record [where json_parse = json_parse and providers = "providersStore st"
      and st = st and c = c and kvs = kvs and provider = provider and persisted = persisted] assms
  by (simp add: lookup_own)

text \<open>
  Claim C1 as stated fails: the entry of \<open>OpenAI\<close> has a \<open>baseUrl\<close>, the persisted
  record \<open>{"enabled":false}\<close> does not mention it, and after hydration the field is gone.
\<close>

theorem hydration_drops_unmentioned_field:
  "map_of (providersStore (example_state example_registry [''providers'' \<mapsto> cookie_openai]))
     ''OpenAI'' = Some openai_entry
   \<and> settings openai_entry ''baseUrl'' = Some (JStr ''http://localhost:8080'')
   \<and> example_parse cookie_openai = Some (JObj [(''OpenAI'', JObj [(''enabled'', JBool False)])])
   \<and> map_of (providersStore (load_providers example_parse example_registry
        (example_state example_registry [''providers'' \<mapsto> cookie_openai]))) ''OpenAI'' =
       Some (openai_entry\<lparr>settings := [''enabled'' \<mapsto> JBool False]\<rparr>)
   \<and> settings (openai_entry\<lparr>settings := [''enabled'' \<mapsto> JBool False]\<rparr>) ''baseUrl'' = None"
  by (simp add: example_parse_simps example_state_def example_registry_def load_providers_def
      try_providers_def hydrate_provider_def spread_def openai_entry_def lookup_def map_of_setKey)

text \<open>The amended statement at the same input.\<close>

theorem hydration_replaces_settings_witness:
  "cookies (example_state example_registry [''providers'' \<mapsto> cookie_openai]) ''providers'' =
     Some cookie_openai
   \<and> example_parse cookie_openai = Some (JObj [(''OpenAI'', JObj [(''enabled'', JBool False)])])
   \<and> map_of (providersStore (example_state example_registry [''providers'' \<mapsto> cookie_openai]))
       ''OpenAI'' = Some openai_entry
   \<and> map_of (providersStore (load_providers example_parse example_registry
        (example_state example_registry [''providers'' \<mapsto> cookie_openai]))) ''OpenAI'' =
       Some (openai_entry\<lparr>settings := [''enabled'' \<mapsto> JBool False]\<rparr>)"
  using hydration_replaces_settings [where st = "example_state example_registry [''providers'' \<mapsto> cookie_openai]"
      and c = cookie_openai and json_parse = example_parse
      and kvs = "[(''OpenAI'', JObj [(''enabled'', JBool False)])]"
      and provider = "''OpenAI''" and persisted = "JObj [(''enabled'', JBool False)]"
      and current = openai_entry]
  by (simp add: example_parse_simps example_state_def example_registry_def spread_def)

section \<open>Unknown provider names\<close>

text \<open>
  Claim C2. A provider name in the persisted payload with no entry in the registry is not
  ignored by the code: \<open>currentProvider\<close> is \<open>undefined\<close>, its spread copies nothing,
  and \<open>setKey\<close> stores a new entry that has \<open>settings\<close> only (no name, no static
  part). Nothing is logged. Evaluated for the payload \<open>{"Ghost":{"enabled":true}}\<close> over a
  registry of OpenAI, Mistral and Ollama.
\<close>

theorem hydration_unknown_provider_creates_entry:
  "map_of example_registry ''Ghost'' = None
   \<and> example_parse cookie_ghost = Some (JObj [(''Ghost'', JObj [(''enabled'', JBool True)])])
   \<and> map_of (providersStore (load_providers example_parse example_registry
        (example_state example_registry [''providers'' \<mapsto> cookie_ghost]))) ''Ghost'' =
       Some \<lparr> info = None, settings = [''enabled'' \<mapsto> JBool True] \<rparr>
   \<and> map fst (providersStore (load_providers example_parse example_registry
        (example_state example_registry [''providers'' \<mapsto> cookie_ghost]))) =
       [''OpenAI'', ''Mistral'', ''Ollama'', ''Ghost'']
   \<and> console (load_providers example_parse example_registry
        (example_state example_registry [''providers'' \<mapsto> cookie_ghost])) = []"
  by (simp add: example_parse_simps example_state_def example_registry_def load_providers_def
      try_providers_def hydrate_provider_def spread_def lookup_def Object_prototype_def
      setKey_def array_index_Ghost)

section \<open>The active-provider list\<close>

text \<open>
  Claim C3. The active-provider list is the registry's entries, in enumeration order, whose
  \<open>settings.enabled\<close> is truthy and, when the local-models preference is false, whose
  name is not in \<open>LOCAL_PROVIDERS\<close>; so with the preference false no local provider is in
  the list. Where \<open>enabled\<close> holds a boolean whenever it is present, truthy means equal to
  \<open>true\<close>.
\<close>

theorem activeProviders_spec:
  "activeProviders L providers isLocalModel =
     map snd (filter (\<lambda>(k, p). enabled_truthy p \<and> (isLocalModel \<or> \<not> is_local L p)) providers)
   \<and> (\<not> isLocalModel \<longrightarrow> (\<forall>p \<in> set (activeProviders L providers isLocalModel). \<not> is_local L p))
   \<and> ((\<forall>(k, p) \<in> set providers. \<forall>v. settings p ''enabled'' = Some v \<longrightarrow> (\<exists>b. v = JBool b)) \<longrightarrow>
        activeProviders L providers isLocalModel =
          map snd (filter (\<lambda>(k, p). settings p ''enabled'' = Some (JBool True) \<and>
                                   (isLocalModel \<or> \<not> is_local L p)) providers))"
proof -
  have 1: "activeProviders L providers isLocalModel =
     map snd (filter (\<lambda>(k, p). enabled_truthy p \<and> (isLocalModel \<or> \<not> is_local L p)) providers)"
    by (induction providers) (auto simp: activeProviders_def Let_def)
  have 2: "(\<forall>(k, p) \<in> set providers. \<forall>v. settings p ''enabled'' = Some v \<longrightarrow> (\<exists>b. v = JBool b)) \<Longrightarrow>
     filter (\<lambda>(k, p). enabled_truthy p \<and> (isLocalModel \<or> \<not> is_local L p)) providers =
     filter (\<lambda>(k, p). settings p ''enabled'' = Some (JBool True) \<and>
                                   (isLocalModel \<or> \<not> is_local L p)) providers"
    by (rule filter_cong) (fastforce simp: enabled_truthy_def split: option.splits)+
  show ?thesis using 1 2 by auto
qed

text \<open>
  The registry with OpenAI enabled, Mistral disabled and the local Ollama enabled: the
  list is OpenAI alone, and OpenAI and Ollama once local models are allowed.
\<close>

theorem activeProviders_spec_witness:
  "activeProviders example_local example_registry False = [openai_entry]
   \<and> activeProviders example_local example_registry True = [openai_entry, ollama_entry]"
  using activeProviders_spec [of example_local example_registry False] activeProviders_spec [of example_local example_registry True]
  by (simp add: example_registry_def example_local_def enabled_truthy_def is_local_def
      openai_entry_def mistral_entry_def ollama_entry_def)

section \<open>The gate of the freshness check\<close>

text \<open>
  Claim C4. On mount a request goes out if and only if the \<open>isLatestBranch\<close> cookie is
  absent or the \<open>commitHash\<close> cookie is present with a value other than the build's
  commit (an absent \<open>commitHash\<close> cookie counts as equal: the code substitutes the
  build's commit). When it goes out, the latest-branch preference becomes the negation of
  the stability result, and that value and the build's commit are written to the cookies.
  Otherwise the preference is \<open>saved === 'true'\<close> and the cookies are untouched.
\<close>

theorem freshness_check_gate:
  "(snd (mount json_parse commit outcome providers st) \<longleftrightarrow>
      (cookies st ''isLatestBranch'' = None \<or>
       (\<exists>h. cookies st ''commitHash'' = Some h \<and> h \<noteq> commit)))
   \<and> (snd (mount json_parse commit outcome providers st) \<longrightarrow>
        latestBranchStore (fst (mount json_parse commit outcome providers st)) =
          (\<not> fst (checkIsStableVersion commit outcome)) \<and>
        cookies (fst (mount json_parse commit outcome providers st)) ''isLatestBranch'' =
          Some (String_bool (\<not> fst (checkIsStableVersion commit outcome))) \<and>
        cookies (fst (mount json_parse commit outcome providers st)) ''commitHash'' = Some commit)
   \<and> (\<not> snd (mount json_parse commit outcome providers st) \<longrightarrow>
        latestBranchStore (fst (mount json_parse commit outcome providers st)) =
          (cookies st ''isLatestBranch'' = Some ''true'') \<and>
        cookies (fst (mount json_parse commit outcome providers st)) = cookies st)"
proof -
  obtain s b where sb: "mount_effect json_parse commit providers st = (s, b)"
    by (cases "mount_effect json_parse commit providers st")
  obtain r w where rw: "checkIsStableVersion commit outcome = (r, w)"
    by (cases "checkIsStableVersion commit outcome")
  have b: "b \<longleftrightarrow> (cookies st ''isLatestBranch'' = None \<or>
       (\<exists>h. cookies st ''commitHash'' = Some h \<and> h \<noteq> commit))"
    using snd_mount_effect [of json_parse commit providers st] sb by simp
  have m: "mount json_parse commit outcome providers st =
      (if b then (then_isStable commit r (s\<lparr>console := console s @ w\<rparr>), True) else (s, False))"
    by (simp add: mount_def sb rw)
  have s: "\<not> b \<Longrightarrow> latestBranchStore s = (cookies st ''isLatestBranch'' = Some ''true'') \<and> cookies s = cookies st"
    using sb b by (auto simp: mount_effect_def Let_def split: if_splits option.splits)
  show ?thesis
    using b s by (auto simp: m rw then_isStable_def Let_def)
qed

text \<open>
  No cookies: the request goes out, a stable build gives \<open>false\<close>. Both cookies
  present and the commit equal: no request and the preference stays \<open>true\<close>.
\<close>

theorem freshness_check_gate_witness:
  "cookies (example_state example_registry Map.empty) ''isLatestBranch'' = None
   \<and> snd (mount example_parse ''abc123'' (stable_response ''abc123'') example_registry
          (example_state example_registry Map.empty))
   \<and> latestBranchStore (fst (mount example_parse ''abc123'' (stable_response ''abc123'')
          example_registry (example_state example_registry Map.empty))) = False
   \<and> cookies (fst (mount example_parse ''abc123'' (stable_response ''abc123'')
          example_registry (example_state example_registry Map.empty))) ''isLatestBranch'' =
        Some ''false''
   \<and> cookies (fst (mount example_parse ''abc123'' (stable_response ''abc123'')
          example_registry (example_state example_registry Map.empty))) ''commitHash'' =
        Some ''abc123''
   \<and> \<not> snd (mount example_parse ''abc123'' Rejected example_registry
          (example_state example_registry
             [''isLatestBranch'' \<mapsto> ''true'', ''commitHash'' \<mapsto> ''abc123'']))
   \<and> latestBranchStore (fst (mount example_parse ''abc123'' Rejected example_registry
          (example_state example_registry
             [''isLatestBranch'' \<mapsto> ''true'', ''commitHash'' \<mapsto> ''abc123'']))) = True"
  using freshness_check_gate [of example_parse "''abc123''" "stable_response ''abc123''" example_registry
      "example_state example_registry Map.empty"]
    freshness_check_gate [of example_parse "''abc123''" Rejected example_registry
      "example_state example_registry
         [''isLatestBranch'' \<mapsto> ''true'', ''commitHash'' \<mapsto> ''abc123'']"]
  by (simp add: example_state_def checkIsStableVersion_def try_stable_def stable_response_def
      String_bool_def)

section \<open>The stability check\<close>

text \<open>
  Claim C5. \<open>checkIsStableVersion\<close> yields \<open>true\<close> exactly when the request resolves
  with a success status, the body parses and its \<open>commit\<close> field is the build's commit
  string. A rejected request, a non-success status and a body that does not parse each
  yield \<open>false\<close> with one warning on the console; every throw inside the \<open>try\<close>
  block ends as \<open>false\<close> with a warning, so nothing reaches the caller.
\<close>

theorem checkIsStableVersion_spec:
  "(fst (checkIsStableVersion commit outcome) \<longleftrightarrow>
      (\<exists>v. outcome = Response True (Some v) \<and> get_prop v ''commit'' = Inr (JStr commit)))
   \<and> (outcome = Rejected \<longrightarrow> checkIsStableVersion commit outcome =
         (False, [ConsoleWarn ''Error checking stable version:'' (Some FetchError)]))
   \<and> (\<forall>body. outcome = Response False body \<longrightarrow> checkIsStableVersion commit outcome =
         (False, [ConsoleWarn ''Failed to fetch stable commit info'' None]))
   \<and> (outcome = Response True None \<longrightarrow> checkIsStableVersion commit outcome =
         (False, [ConsoleWarn ''Error checking stable version:'' (Some SyntaxError)]))
   \<and> (\<forall>e. try_stable commit outcome = Inl e \<longrightarrow> checkIsStableVersion commit outcome =
         (False, [ConsoleWarn ''Error checking stable version:'' (Some e)]))"
  by (auto simp: checkIsStableVersion_def try_stable_def split: fetch_outcome.splits option.splits sum.splits)

text \<open>The outcomes one by one, for the build \<open>abc123\<close>.\<close>

theorem checkIsStableVersion_spec_witness:
  "checkIsStableVersion ''abc123'' (stable_response ''abc123'') = (True, [])
   \<and> checkIsStableVersion ''abc123'' (stable_response ''def456'') = (False, [])
   \<and> checkIsStableVersion ''abc123'' Rejected =
       (False, [ConsoleWarn ''Error checking stable version:'' (Some FetchError)])
   \<and> checkIsStableVersion ''abc123'' (Response False None) =
       (False, [ConsoleWarn ''Failed to fetch stable commit info'' None])
   \<and> checkIsStableVersion ''abc123'' (Response True None) =
       (False, [ConsoleWarn ''Error checking stable version:'' (Some SyntaxError)])
   \<and> try_stable ''abc123'' (Response True (Some JNull)) = Inl TypeError
   \<and> checkIsStableVersion ''abc123'' (Response True (Some JNull)) =
       (False, [ConsoleWarn ''Error checking stable version:'' (Some TypeError)])"
  using checkIsStableVersion_spec [of "''abc123''" "stable_response ''abc123''"]
    checkIsStableVersion_spec [of "''abc123''" "stable_response ''def456''"]
    checkIsStableVersion_spec [of "''abc123''" Rejected]
    checkIsStableVersion_spec [of "''abc123''" "Response False None"]
    checkIsStableVersion_spec [of "''abc123''" "Response True None"]
    checkIsStableVersion_spec [of "''abc123''" "Response True (Some JNull)"]
  by (simp add: stable_response_def checkIsStableVersion_def try_stable_def)

section \<open>Round trip of the boolean preferences\<close>

text \<open>
  Claim C6, amended. Each boolean setter writes \<open>"true"\<close> or \<open>"false"\<close> to its
  cookie. Hydrating any in-memory state from the cookies the setter left reproduces the
  value for debug mode, event logs and local models. For the latest-branch preference it
  does so when the \<open>commitHash\<close> cookie is absent or equal to the build's commit; then no
  request goes out either.
\<close>

theorem boolean_preferences_roundtrip:
  "isDebugMode (enableDebugMode b st) = b
   \<and> cookies (enableDebugMode b st) ''isDebugEnabled'' = Some (if b then ''true'' else ''false'')
   \<and> isDebugMode (fst (mount_effect json_parse commit providers
         (st'\<lparr>cookies := cookies (enableDebugMode b st)\<rparr>))) = b
   \<and> isEventLogsEnabled (enableEventLogs b st) = b
   \<and> cookies (enableEventLogs b st) ''isEventLogsEnabled'' = Some (if b then ''true'' else ''false'')
   \<and> isEventLogsEnabled (fst (mount_effect json_parse commit providers
         (st'\<lparr>cookies := cookies (enableEventLogs b st)\<rparr>))) = b
   \<and> isLocalModelsEnabled (enableLocalModels b st) = b
   \<and> cookies (enableLocalModels b st) ''isLocalModelsEnabled'' = Some (if b then ''true'' else ''false'')
   \<and> isLocalModelsEnabled (fst (mount_effect json_parse commit providers
         (st'\<lparr>cookies := cookies (enableLocalModels b st)\<rparr>))) = b
   \<and> latestBranchStore (enableLatestBranch b st) = b
   \<and> cookies (enableLatestBranch b st) ''isLatestBranch'' = Some (if b then ''true'' else ''false'')
   \<and> (cookies st ''commitHash'' = None \<or> cookies st ''commitHash'' = Some commit \<longrightarrow>
        mount json_parse commit outcome providers (st'\<lparr>cookies := cookies (enableLatestBranch b st)\<rparr>) =
          (fst (mount_effect json_parse commit providers
             (st'\<lparr>cookies := cookies (enableLatestBranch b st)\<rparr>)), False) \<and>
        latestBranchStore (fst (mount json_parse commit outcome providers
          (st'\<lparr>cookies := cookies (enableLatestBranch b st)\<rparr>))) = b)"
proof -
  have 1: "isDebugMode (fst (mount_effect json_parse commit providers
         (st'\<lparr>cookies := cookies (enableDebugMode b st)\<rparr>))) = b"
    by (simp add: mount_effect_def Let_def load_flag_def enableDebugMode_def String_bool_def)
  have 2: "isEventLogsEnabled (fst (mount_effect json_parse commit providers
         (st'\<lparr>cookies := cookies (enableEventLogs b st)\<rparr>))) = b"
    by (simp add: mount_effect_def Let_def load_flag_def enableEventLogs_def String_bool_def)
  have 3: "isLocalModelsEnabled (fst (mount_effect json_parse commit providers
         (st'\<lparr>cookies := cookies (enableLocalModels b st)\<rparr>))) = b"
    by (simp add: mount_effect_def Let_def load_flag_def enableLocalModels_def String_bool_def)
  have 4: "cookies st ''commitHash'' = None \<or> cookies st ''commitHash'' = Some commit \<Longrightarrow>
      mount_effect json_parse commit providers (st'\<lparr>cookies := cookies (enableLatestBranch b st)\<rparr>) =
        (fst (mount_effect json_parse commit providers
             (st'\<lparr>cookies := cookies (enableLatestBranch b st)\<rparr>)), False) \<and>
      latestBranchStore (fst (mount_effect json_parse commit providers
             (st'\<lparr>cookies := cookies (enableLatestBranch b st)\<rparr>))) = b"
    by (auto simp add: mount_effect_def Let_def enableLatestBranch_def String_bool_def)
  have 5: "cookies st ''commitHash'' = None \<or> cookies st ''commitHash'' = Some commit \<Longrightarrow>
      mount json_parse commit outcome providers (st'\<lparr>cookies := cookies (enableLatestBranch b st)\<rparr>) =
          (fst (mount_effect json_parse commit providers
             (st'\<lparr>cookies := cookies (enableLatestBranch b st)\<rparr>)), False)"
    using 4 mount_no_request [of json_parse commit providers
        "st'\<lparr>cookies := cookies (enableLatestBranch b st)\<rparr>" outcome]
    by (metis snd_conv)
  show ?thesis
    using 1 2 3 4 5
    by (simp add: enableDebugMode_def enableEventLogs_def enableLocalModels_def
        enableLatestBranch_def String_bool_def)
qed

text \<open>
  Claim C6 as stated fails for the latest-branch preference: with a \<open>commitHash\<close> cookie
  of an older build, \<open>enableLatestBranch(true)\<close> writes \<open>"true"\<close>, but the next mount
  sends the request instead of reading the cookie; the effect leaves the store at
  \<open>false\<close>, and a stable answer sets it to \<open>false\<close>.
\<close>

theorem latest_branch_roundtrip_fails:
  "cookies (enableLatestBranch True (example_state example_registry [''commitHash'' \<mapsto> ''abc123'']))
     ''isLatestBranch'' = Some ''true''
   \<and> latestBranchStore (enableLatestBranch True
        (example_state example_registry [''commitHash'' \<mapsto> ''abc123''])) = True
   \<and> snd (mount_effect example_parse ''def456'' example_registry
        (example_state example_registry
           (cookies (enableLatestBranch True
              (example_state example_registry [''commitHash'' \<mapsto> ''abc123''])))))
   \<and> latestBranchStore (fst (mount_effect example_parse ''def456'' example_registry
        (example_state example_registry
           (cookies (enableLatestBranch True
              (example_state example_registry [''commitHash'' \<mapsto> ''abc123'']))))))
       = False
   \<and> latestBranchStore (fst (mount example_parse ''def456'' (stable_response ''def456'')
        example_registry
        (example_state example_registry
           (cookies (enableLatestBranch True
              (example_state example_registry [''commitHash'' \<mapsto> ''abc123'']))))))
       = False"
  by (simp add: enableLatestBranch_def example_state_def String_bool_def mount_def
      mount_effect_def Let_def load_providers_def load_flag_def load_prompt_def
      checkIsStableVersion_def try_stable_def stable_response_def then_isStable_def)

text \<open>The latest-branch round trip with the \<open>commitHash\<close> cookie of the running build.\<close>

theorem boolean_preferences_roundtrip_witness:
  "cookies (example_state example_registry [''commitHash'' \<mapsto> ''abc123'']) ''commitHash'' =
     Some ''abc123''
   \<and> cookies (enableLatestBranch True
        (example_state example_registry [''commitHash'' \<mapsto> ''abc123''])) ''isLatestBranch'' =
       Some ''true''
   \<and> \<not> snd (mount example_parse ''abc123'' Rejected example_registry
        ((example_state example_registry Map.empty)
           \<lparr>cookies := cookies (enableLatestBranch True
              (example_state example_registry [''commitHash'' \<mapsto> ''abc123'']))\<rparr>))
   \<and> latestBranchStore (fst (mount example_parse ''abc123'' Rejected example_registry
        ((example_state example_registry Map.empty)
           \<lparr>cookies := cookies (enableLatestBranch True
              (example_state example_registry [''commitHash'' \<mapsto> ''abc123'']))\<rparr>))) = True"
proof -
  have h: "cookies (example_state example_registry [''commitHash'' \<mapsto> ''abc123'']) ''commitHash'' =
     Some ''abc123''"
    by (simp add: example_state_def)
  note c = boolean_preferences_roundtrip [of True "example_state example_registry [''commitHash'' \<mapsto> ''abc123'']"
      example_parse "''abc123''" example_registry "example_state example_registry Map.empty"
      Rejected]
  from c have ck: "cookies (enableLatestBranch True
        (example_state example_registry [''commitHash'' \<mapsto> ''abc123''])) ''isLatestBranch'' =
       Some (if True then ''true'' else ''false'')"
    by blast
  from c h have eq: "mount example_parse ''abc123'' Rejected example_registry
        ((example_state example_registry Map.empty)
           \<lparr>cookies := cookies (enableLatestBranch True
              (example_state example_registry [''commitHash'' \<mapsto> ''abc123'']))\<rparr>) =
      (fst (mount_effect example_parse ''abc123'' example_registry
        ((example_state example_registry Map.empty)
           \<lparr>cookies := cookies (enableLatestBranch True
              (example_state example_registry [''commitHash'' \<mapsto> ''abc123'']))\<rparr>)), False)"
    by blast
  from c h have lb: "latestBranchStore (fst (mount example_parse ''abc123'' Rejected example_registry
        ((example_state example_registry Map.empty)
           \<lparr>cookies := cookies (enableLatestBranch True
              (example_state example_registry [''commitHash'' \<mapsto> ''abc123'']))\<rparr>))) = True"
    by blast
  have ns: "\<not> snd (mount example_parse ''abc123'' Rejected example_registry
        ((example_state example_registry Map.empty)
           \<lparr>cookies := cookies (enableLatestBranch True
              (example_state example_registry [''commitHash'' \<mapsto> ''abc123'']))\<rparr>))"
    by (simp add: eq)
  from ck have ck': "cookies (enableLatestBranch True
        (example_state example_registry [''commitHash'' \<mapsto> ''abc123''])) ''isLatestBranch'' =
       Some ''true''"
    by simp
  from h ck' ns lb show ?thesis by blast
qed

section \<open>The default of enabled\<close>

text \<open>
  Claim C7. For a record of the persisted payload (an object whose records are not
  \<open>null\<close>), the hydrated entry exists; if the record omits \<open>enabled\<close>, the entry's
  \<open>settings.enabled\<close> is \<open>true\<close>; and it is \<open>false\<close> exactly when the record says
  \<open>false\<close>.
\<close>

theorem hydration_enabled_default:
  assumes "cookies st ''providers'' = Some c" "c \<noteq> []"
    and "json_parse c = Some (JObj kvs)"
    and "\<forall>(k, r) \<in> set kvs. r \<noteq> JNull \<and> r \<noteq> JUndefined"
    and "map_of kvs provider = Some persisted"
  shows "\<exists>entry. map_of (providersStore (load_providers json_parse (providersStore st) st)) provider = Some entry \<and>
           (spread persisted ''enabled'' = None \<longrightarrow> settings entry ''enabled'' = Some (JBool True)) \<and>
           (settings entry ''enabled'' = Some (JBool False) \<longleftrightarrow>
              spread persisted ''enabled'' = Some (JBool False))"
proof -
  have f: "(nullish (case spread persisted ''enabled'' of None \<Rightarrow> JUndefined | Some x \<Rightarrow> x) (JBool True)
             = JBool False) \<longleftrightarrow> spread persisted ''enabled'' = Some (JBool False)"
  proof (cases "spread persisted ''enabled''")
    case None
    then show ?thesis by simp
  next
    case (Some v)
    then show ?thesis by (cases v) simp_all
  qed
  show ?thesis
    using load_providers_record [where json_parse = json_parse and providers = "providersStore st"
      and st = st and c = c and kvs = kvs and provider = provider and persisted = persisted] assms f
    by auto
qed

text \<open>
  Mistral is disabled in the registry; the persisted record \<open>{"apiKey":"x"}\<close> omits
  \<open>enabled\<close>, and the hydrated entry is enabled.
\<close>

theorem hydration_enabled_default_witness:
  "settings mistral_entry ''enabled'' = Some (JBool False)
   \<and> spread (JObj [(''apiKey'', JStr ''x'')]) ''enabled'' = None
   \<and> (\<exists>entry. map_of (providersStore (load_providers example_parse example_registry
        (example_state example_registry [''providers'' \<mapsto> cookie_mistral]))) ''Mistral'' =
       Some entry \<and> settings entry ''enabled'' = Some (JBool True))"
  using hydration_enabled_default [where st = "example_state example_registry [''providers'' \<mapsto> cookie_mistral]"
      and c = cookie_mistral and json_parse = example_parse
      and kvs = "[(''Mistral'', JObj [(''apiKey'', JStr ''x'')])]"
      and provider = "''Mistral''" and persisted = "JObj [(''apiKey'', JStr ''x'')]"]
  by (auto simp add: example_parse_simps example_state_def example_registry_def spread_def mistral_entry_def)

section \<open>Malformed cookies\<close>




section \<open>Updating the settings of a provider\<close>

text \<open>
  Claim C9. For a provider name in the registry, \<open>updateProviderSettings\<close> succeeds; the
  entry's settings become the old settings overridden by the fields of the partial
  settings (fields the partial settings do not mention keep their value), every other
  entry and the order of the registry are unchanged, and so is the rest of the state.
\<close>

theorem updateProviderSettings_merge_frame:
  assumes "map_of (providersStore st) provider = Some p"
  shows "\<exists>st'. updateProviderSettings (providersStore st) provider config st = Inr st' \<and>
           map_of (providersStore st') provider = Some (p\<lparr>settings := settings p ++ config\<rparr>) \<and>
           (\<forall>f. config f = None \<longrightarrow> (settings p ++ config) f = settings p f) \<and>
           (\<forall>f v. config f = Some v \<longrightarrow> (settings p ++ config) f = Some v) \<and>
           (\<forall>other. other \<noteq> provider \<longrightarrow>
              map_of (providersStore st') other = map_of (providersStore st) other) \<and>
           map fst (providersStore st') = map fst (providersStore st) \<and>
           st' = st\<lparr>providersStore := providersStore st'\<rparr>"
  using assms
  by (simp add: updateProviderSettings_def lookup_own map_of_setKey keys_setKey map_add_def)

text \<open>Disabling OpenAI keeps its \<open>baseUrl\<close> and the entries of Mistral and Ollama.\<close>

theorem updateProviderSettings_merge_frame_witness:
  "map_of (providersStore (example_state example_registry Map.empty)) ''OpenAI'' = Some openai_entry
   \<and> settings openai_entry ''baseUrl'' = Some (JStr ''http://localhost:8080'')
   \<and> (\<exists>st'. updateProviderSettings (providersStore (example_state example_registry Map.empty))
                ''OpenAI'' [''enabled'' \<mapsto> JBool False]
                (example_state example_registry Map.empty) = Inr st'
         \<and> map_of (providersStore st') ''OpenAI'' =
             Some (openai_entry\<lparr>settings :=
               [''enabled'' \<mapsto> JBool False, ''baseUrl'' \<mapsto> JStr ''http://localhost:8080'']\<rparr>)
         \<and> map_of (providersStore st') ''Mistral'' = Some mistral_entry
         \<and> map_of (providersStore st') ''Ollama'' = Some ollama_entry)"
proof -
  have h: "map_of (providersStore (example_state example_registry Map.empty)) ''OpenAI'' =
      Some openai_entry"
    by (simp add: example_state_def example_registry_def)
  have m: "settings openai_entry ++ [''enabled'' \<mapsto> JBool False] =
      [''enabled'' \<mapsto> JBool False, ''baseUrl'' \<mapsto> JStr ''http://localhost:8080'']"
    by (auto simp: openai_entry_def fun_eq_iff map_add_def)
  have b: "settings openai_entry ''baseUrl'' = Some (JStr ''http://localhost:8080'')"
    by (simp add: openai_entry_def)
  from updateProviderSettings_merge_frame [OF h, of "[''enabled'' \<mapsto> JBool False]"]
  obtain st' where
    1: "updateProviderSettings (providersStore (example_state example_registry Map.empty))
          ''OpenAI'' [''enabled'' \<mapsto> JBool False]
          (example_state example_registry Map.empty) = Inr st'"
    and 2: "map_of (providersStore st') ''OpenAI'' =
          Some (openai_entry\<lparr>settings := settings openai_entry ++ [''enabled'' \<mapsto> JBool False]\<rparr>)"
    and 3: "\<forall>other. other \<noteq> ''OpenAI'' \<longrightarrow> map_of (providersStore st') other =
          map_of (providersStore (example_state example_registry Map.empty)) other"
    by blast
  from 3 have 4: "map_of (providersStore st') ''Mistral'' = Some mistral_entry"
    by (simp add: example_state_def example_registry_def)
  from 3 have 5: "map_of (providersStore st') ''Ollama'' = Some ollama_entry"
    by (simp add: example_state_def example_registry_def)
  from 2 m have 6: "map_of (providersStore st') ''OpenAI'' =
             Some (openai_entry\<lparr>settings :=
               [''enabled'' \<mapsto> JBool False, ''baseUrl'' \<mapsto> JStr ''http://localhost:8080'']\<rparr>)"
    by simp
  from h b 1 6 4 5 show ?thesis by blast
qed

section \<open>Updating an absent provider\<close>

text \<open>
  Claim C10, amended. \<open>updateProviderSettings\<close> throws a TypeError exactly for the names
  that have no entry of their own in the registry and are not names that
  \<open>Object.prototype\<close> hands down; for such a name no state is returned, so no entry is
  created and the call is not a no-op. TypeError is the only error of the call.
\<close>

theorem updateProviderSettings_absent_throws:
  "(updateProviderSettings (providersStore st) provider config st = Inl TypeError \<longleftrightarrow>
      map_of (providersStore st) provider = None \<and> provider \<notin> set Object_prototype)
   \<and> (map_of (providersStore st) provider = None \<and> provider \<notin> set Object_prototype \<longrightarrow>
        (\<forall>st'. updateProviderSettings (providersStore st) provider config st \<noteq> Inr st'))
   \<and> (\<forall>e. updateProviderSettings (providersStore st) provider config st = Inl e \<longrightarrow> e = TypeError)"
  by (auto simp: updateProviderSettings_def lookup_def split: option.splits member.splits)

text \<open>
  Claim C10 as stated fails for a name such as \<open>constructor\<close>: the registry has no entry
  of that name, yet \<open>providers['constructor']\<close> is the inherited function, reading its
  \<open>settings\<close> gives \<open>undefined\<close>, nothing throws, and \<open>setKey\<close> stores an entry
  with the given settings alone.
\<close>

theorem updateProviderSettings_inherited_name_creates_entry:
  "map_of (providersStore (example_state example_registry Map.empty)) ''constructor'' = None
   \<and> updateProviderSettings (providersStore (example_state example_registry Map.empty))
        ''constructor'' [''enabled'' \<mapsto> JBool False] (example_state example_registry Map.empty) =
       Inr (example_state
         (example_registry @
            [(''constructor'', \<lparr> info = None, settings = [''enabled'' \<mapsto> JBool False] \<rparr>)])
         Map.empty)"
  by (simp add: example_state_def example_registry_def updateProviderSettings_def lookup_def
      Object_prototype_def setKey_def array_index_def is_digit_def)

text \<open>The name \<open>Ghost\<close> is neither in the example registry nor inherited.\<close>

theorem updateProviderSettings_absent_throws_witness:
  "map_of (providersStore (example_state example_registry Map.empty)) ''Ghost'' = None
   \<and> ''Ghost'' \<notin> set Object_prototype
   \<and> updateProviderSettings (providersStore (example_state example_registry Map.empty)) ''Ghost''
        [''enabled'' \<mapsto> JBool False] (example_state example_registry Map.empty) = Inl TypeError"
proof -
  have h: "map_of (providersStore (example_state example_registry Map.empty)) ''Ghost'' = None"
    by (simp add: example_state_def example_registry_def)
  have g: "''Ghost'' \<notin> set Object_prototype"
    by (simp add: Object_prototype_def)
  from updateProviderSettings_absent_throws [of "example_state example_registry Map.empty" "''Ghost''"
      "[''enabled'' \<mapsto> JBool False]"] h g
  have "updateProviderSettings (providersStore (example_state example_registry Map.empty)) ''Ghost''
        [''enabled'' \<mapsto> JBool False] (example_state example_registry Map.empty) = Inl TypeError"
    by blast
  with h g show ?thesis by blast
qed

end
